theory Spec2Isabelle
  imports Main "HOL-Library.Sublist"
begin

section \<open>JavaScript values and string primitives used by machine\_migrate.js\<close>

text \<open>
  Strings and Buffers are lists of \<^typ>\<open>char\<close> (one element per byte). The task only
  handles the ASCII output of \<^verbatim>\<open>zfs\<close>, \<^verbatim>\<open>ps\<close> and the worker, so
  \<^verbatim>\<open>String(buf)\<close> of a Buffer is the same list. Calls to the logger change no
  state and are left out of the model.
\<close>

datatype js_value = JUndefined | JNull | JNum int | JStr string

text \<open>\<^verbatim>\<open>!v\<close> is false exactly on the truthy values.\<close>

fun truthy :: "js_value \<Rightarrow> bool" where
  "truthy JUndefined = False"
| "truthy JNull = False"
| "truthy (JNum n) = (n \<noteq> 0)"
| "truthy (JStr s) = (s \<noteq> [])"

text \<open>\<^verbatim>\<open>String(x)\<close> for a variable that is either unassigned or holds a Buffer.\<close>

fun js_String :: "string option \<Rightarrow> string" where
  "js_String None = ''undefined''"
| "js_String (Some buf) = buf"

fun show_nat :: "nat \<Rightarrow> string" where
  "show_nat n =
     (if n < 10 then [''0123456789'' ! n]
      else show_nat (n div 10) @ [''0123456789'' ! (n mod 10)])"

text \<open>The \<^verbatim>\<open>%s\<close> directive of \<^verbatim>\<open>util.format\<close> on a number or null, and on a string or null.\<close>

fun format_code :: "nat option \<Rightarrow> string" where
  "format_code None = ''null''"
| "format_code (Some n) = show_nat n"

fun format_signal :: "string option \<Rightarrow> string" where
  "format_signal None = ''null''"
| "format_signal (Some s) = s"

text \<open>\<^verbatim>\<open>haystack.indexOf(needle)\<close>: the first position of the needle, or -1.\<close>

fun indexOf :: "string \<Rightarrow> string \<Rightarrow> int" where
  "indexOf [] needle = (if needle = [] then 0 else -1)"
| "indexOf (h # hs) needle =
     (if prefix needle (h # hs) then 0
      else (let i = indexOf hs needle in if i = -1 then -1 else i + 1))"

text \<open>\<^verbatim>\<open>s.lastIndexOf(c)\<close> for a one-character needle: the last position, or -1.\<close>

fun lastIndexOf :: "string \<Rightarrow> char \<Rightarrow> int" where
  "lastIndexOf [] c = -1"
| "lastIndexOf (h # hs) c =
     (let i = lastIndexOf hs c in
      if i \<noteq> -1 then i + 1 else if h = c then 0 else -1)"

text \<open>\<^verbatim>\<open>s.split(sep)\<close> for a one-character separator; the result is never empty.\<close>

fun split :: "string \<Rightarrow> char \<Rightarrow> string list" where
  "split [] sep = [[]]"
| "split (h # hs) sep =
     (if h = sep then [] # split hs sep
      else (case split hs sep of [] \<Rightarrow> [[h]] | w # ws \<Rightarrow> (h # w) # ws))"

text \<open>\<^verbatim>\<open>a[i]\<close> on an array: \<^verbatim>\<open>undefined\<close> when out of range.\<close>

fun at_index :: "'a list \<Rightarrow> nat \<Rightarrow> 'a option" where
  "at_index [] i = None"
| "at_index (x # xs) 0 = Some x"
| "at_index (x # xs) (Suc i) = at_index xs i"

text \<open>ASCII white space (what \<^verbatim>\<open>trim\<close> removes and \<^verbatim>\<open>\s\<close> matches) and digits.\<close>

definition is_space :: "char \<Rightarrow> bool" where
  "is_space c = (c \<in> set [CHR 0x09, CHR 0x0A, CHR 0x0B, CHR 0x0C, CHR 0x0D, CHR 0x20])"

definition is_digit :: "char \<Rightarrow> bool" where
  "is_digit c = (c \<in> set ''0123456789'')"

definition trim :: "string \<Rightarrow> string" where
  "trim s = rev (dropWhile is_space (rev (dropWhile is_space s)))"

text \<open>The value of a decimal digit: its position in the digit alphabet.\<close>

fun position_in :: "string \<Rightarrow> char \<Rightarrow> nat" where
  "position_in [] c = 0"
| "position_in (d # ds) c = (if c = d then 0 else Suc (position_in ds c))"

definition digit_val :: "char \<Rightarrow> nat" where
  "digit_val c = position_in ''0123456789'' c"

text \<open>The integer a string of decimal digits denotes.\<close>

definition decimal_value :: "string \<Rightarrow> nat" where
  "decimal_value ds = foldl (\<lambda>acc c. 10 * acc + digit_val c) 0 ds"

text \<open>
  JavaScript numbers are IEEE 754 doubles. The sizes handled here are non-negative
  integers, so a number is the integer a double holds exactly, or \<^verbatim>\<open>Infinity\<close>.
\<close>

datatype js_number = Finite nat | PosInfinity

fun bit_length :: "nat \<Rightarrow> nat" where
  "bit_length n = (if n = 0 then 0 else Suc (bit_length (n div 2)))"

text \<open>
  The double nearest to an integer. Up to \<open>2 ^ 53\<close> every integer is a double. Above, the
  53 leading bits \<open>q\<close> are kept and the \<open>e\<close> bits \<open>r\<close> below them are rounded to
  nearest, a tie going to the even \<open>q\<close>; a result of \<open>2 ^ 1024\<close> or more is
  \<^verbatim>\<open>Infinity\<close>.
\<close>

definition to_double :: "nat \<Rightarrow> js_number" where
  "to_double n =
     (if n \<le> 2 ^ 53 then Finite n
      else (let e = bit_length n - 53;
                q = n div 2 ^ e;
                r = n mod 2 ^ e;
                m = (if 2 ^ (e - 1) < r \<or> (r = 2 ^ (e - 1) \<and> odd q) then q + 1 else q)
            in if 2 ^ 1024 \<le> m * 2 ^ e then PosInfinity else Finite (m * 2 ^ e)))"

text \<open>\<^verbatim>\<open>Number(digits)\<close> on a string of decimal digits: the nearest double.\<close>

definition Number_of :: "string \<Rightarrow> js_number" where
  "Number_of ds = to_double (decimal_value ds)"

text \<open>\<^verbatim>\<open>a + b\<close> on two such numbers: the exact sum, rounded to a double.\<close>

fun js_add :: "js_number \<Rightarrow> js_number \<Rightarrow> js_number" where
  "js_add (Finite a) (Finite b) = to_double (a + b)"
| "js_add a b = PosInfinity"


section \<open>The task lifecycle calls\<close>

text \<open>
  \<^verbatim>\<open>Task\<close> itself lives in \<^verbatim>\<open>lib/task_agent/task.js\<close>; the behaviours only call
  its \<^verbatim>\<open>finish\<close> and \<^verbatim>\<open>fatal\<close> methods, and the model records every such call
  in order.
\<close>

datatype js_error = JsError (message: string) (stderr_prop: "string option")

datatype finish_arg =
    NoResult
  | WorkerResult "(string \<times> string) list" nat
  | SizeResult js_number

datatype fatal_arg = Msg string | MultiError "js_error list"

datatype task_call = Finish finish_arg | Fatal fatal_arg "string option"


section \<open>startChildProcess: the worker session\<close>

text \<open>
  The message the worker sends back: \<^verbatim>\<open>result.error\<close> (with its \<^verbatim>\<open>message\<close>)
  when present, and the remaining result fields.
\<close>

record worker_message =
  result_error :: "string option"
  result_fields :: "(string \<times> string) list"

datatype event =
    Message worker_message
  | StdoutData string
  | StderrData string
  | Exit "nat option" "string option"
  | Disconnect
  | ErrorEvent string

text \<open>
  The closure variables of \<^verbatim>\<open>startChildProcess\<close>: \<^verbatim>\<open>handledResponse\<close>,
  \<^verbatim>\<open>limitedStderr\<close> (unassigned at first), the \<^verbatim>\<open>called\<close> flag of the
  \<^verbatim>\<open>once\<close> wrapper around the message handler, whether the IPC channel is still
  attached, and the calls made on the task so far.
\<close>

record session =
  handledResponse :: bool
  limitedStderr :: "string option"
  onceCalled :: bool
  connected :: bool
  calls :: "task_call list"

definition startChildProcess :: session where
  "startChildProcess =
     \<lparr>handledResponse = False, limitedStderr = None, onceCalled = False,
      connected = True, calls = []\<rparr>"

definition elision :: string where
  "elision = [CHR 0x0A, CHR ''.'', CHR ''.'', CHR ''.'', CHR 0x0A]"

text \<open>\<^verbatim>\<open>buf.slice(0, 2500)\<close>, the marker, \<^verbatim>\<open>buf.slice(-2500)\<close>.\<close>

definition collapse :: "string \<Rightarrow> string" where
  "collapse b = take 2500 b @ elision @ drop (length b - 2500) b"

text \<open>The \<^verbatim>\<open>stderr\<close> \<^verbatim>\<open>'data'\<close> handler; a Buffer is truthy even when empty.\<close>

definition on_stderr :: "string option \<Rightarrow> string \<Rightarrow> string option" where
  "on_stderr limited buf =
     (let l = (case limited of None \<Rightarrow> buf | Some old \<Rightarrow> old @ buf)
      in if length l > 5000 then Some (collapse l) else Some l)"

text \<open>The body wrapped by \<^verbatim>\<open>once\<close>; \<open>pid\<close> is \<^verbatim>\<open>process.pid\<close> of the agent.\<close>

definition on_message_body :: "nat \<Rightarrow> session \<Rightarrow> worker_message \<Rightarrow> session" where
  "on_message_body pid s result =
     (let s1 = s\<lparr>handledResponse := True, connected := False\<rparr>
      in case result_error result of
           Some m \<Rightarrow> s1\<lparr>calls := calls s1 @ [Fatal (Msg m) None]\<rparr>
         | None \<Rightarrow> s1\<lparr>calls := calls s1 @ [Finish (WorkerResult (result_fields result) pid)]\<rparr>)"

definition on_message :: "nat \<Rightarrow> session \<Rightarrow> worker_message \<Rightarrow> session" where
  "on_message pid s result =
     (if onceCalled s then s else on_message_body pid (s\<lparr>onceCalled := True\<rparr>) result)"

definition exit_message :: "nat option \<Rightarrow> string option \<Rightarrow> string" where
  "exit_message code signal =
     ''machine-migrate exit error (code '' @ format_code code @ '', signal ''
       @ format_signal signal @ '')''"

definition on_exit :: "session \<Rightarrow> nat option \<Rightarrow> string option \<Rightarrow> session" where
  "on_exit s code signal =
     (if \<not> handledResponse s
      then s\<lparr>calls := calls s @
             [Fatal (Msg (exit_message code signal)) (Some (js_String (limitedStderr s)))]\<rparr>
      else s)"

fun deliver :: "nat \<Rightarrow> session \<Rightarrow> event \<Rightarrow> session" where
  "deliver pid s (Message result) = on_message pid s result"
| "deliver pid s (StdoutData buf) = s"
| "deliver pid s (StderrData buf) = s\<lparr>limitedStderr := on_stderr (limitedStderr s) buf\<rparr>"
| "deliver pid s (Exit code signal) = on_exit s code signal"
| "deliver pid s Disconnect = s"
| "deliver pid s (ErrorEvent e) = s"

definition run_session :: "nat \<Rightarrow> event list \<Rightarrow> session" where
  "run_session pid evs = foldl (deliver pid) startChildProcess evs"

text \<open>Classifying events, for the statements about event sequences.\<close>

fun is_message :: "event \<Rightarrow> bool" where
  "is_message (Message r) = True"
| "is_message e = False"

fun is_exit :: "event \<Rightarrow> bool" where
  "is_exit (Exit c s) = True"
| "is_exit e = False"

fun is_stderr :: "event \<Rightarrow> bool" where
  "is_stderr (StderrData b) = True"
| "is_stderr e = False"

text \<open>The chunks the worker wrote to its diagnostic stream, in order.\<close>

fun stderr_chunks :: "event list \<Rightarrow> string list" where
  "stderr_chunks [] = []"
| "stderr_chunks (StderrData b # es) = b # stderr_chunks es"
| "stderr_chunks (e # es) = stderr_chunks es"

text \<open>How many exit events arrive before the first result message.\<close>

fun exits_before_message :: "event list \<Rightarrow> nat" where
  "exits_before_message [] = 0"
| "exits_before_message (Message r # es) = 0"
| "exits_before_message (Exit c s # es) = Suc (exits_before_message es)"
| "exits_before_message (e # es) = exits_before_message es"

text \<open>Events that touch neither the flags nor the capture buffer.\<close>

definition quiet :: "event \<Rightarrow> bool" where
  "quiet e = (\<not> is_message e \<and> \<not> is_exit e \<and> \<not> is_stderr e)"


section \<open>killChild: identity-verified termination\<close>

record kill_payload =
  pid :: js_value
  ppid :: js_value

text \<open>
  What the host answers: whether \<^verbatim>\<open>process.kill(pid, 0)\<close> returns, the output of
  \<^verbatim>\<open>ps\<close> and the content of \<^verbatim>\<open>/proc/<pid>/argv\<close> (\<open>None\<close> when the call
  throws), and whether \<^verbatim>\<open>process.kill(pid, 'SIGTERM')\<close> returns.
\<close>

record kill_env =
  probe_ok :: bool
  ps_output :: "string option"
  argv_file :: "string option"
  sigterm_ok :: bool

datatype sys_action =
    Probe js_value
  | PsExec string "js_value list"
  | ReadArgv js_value
  | SigTerm js_value

record kill_outcome =
  sys_actions :: "sys_action list"
  task_calls :: "task_call list"

fun to_js :: "string option \<Rightarrow> js_value" where
  "to_js None = JUndefined"
| "to_js (Some s) = JStr s"

definition ps_args :: "js_value \<Rightarrow> js_value list" where
  "ps_args p = [JStr ''-p'', p, JStr ''-o'', JStr ''ppid='', JStr ''-o'', JStr ''zone='']"

definition killChild :: "kill_payload \<Rightarrow> kill_env \<Rightarrow> kill_outcome" where
  "killChild payload env =
     (let p = pid payload in
      if \<not> truthy p then
        \<lparr>sys_actions = [],
         task_calls = [Fatal (Msg ''No PID supplied to kill_migration_process task'') None]\<rparr>
      else if \<not> probe_ok env then
        \<lparr>sys_actions = [Probe p], task_calls = [Finish NoResult]\<rparr>
      else case ps_output env of
        None \<Rightarrow>
          \<lparr>sys_actions = [Probe p, PsExec ''/usr/bin/ps'' (ps_args p)],
           task_calls = [Finish NoResult]\<rparr>
      | Some buf \<Rightarrow>
          (let argSplit = split buf CHR '' '';
               checked = [Probe p, PsExec ''/usr/bin/ps'' (ps_args p)]
           in if to_js (at_index argSplit 0) \<noteq> ppid payload then
                \<lparr>sys_actions = checked, task_calls = [Finish NoResult]\<rparr>
              else if to_js (at_index argSplit 1) \<noteq> JStr ''global'' then
                \<lparr>sys_actions = checked, task_calls = [Finish NoResult]\<rparr>
              else case argv_file env of
                None \<Rightarrow>
                  \<lparr>sys_actions = checked @ [ReadArgv p], task_calls = [Finish NoResult]\<rparr>
              | Some argv \<Rightarrow>
                  if indexOf argv ''/machine-migrate.js'' = -1 then
                    \<lparr>sys_actions = checked @ [ReadArgv p], task_calls = [Finish NoResult]\<rparr>
                  else if sigterm_ok env then
                    \<lparr>sys_actions = checked @ [ReadArgv p, SigTerm p],
                     task_calls = [Finish NoResult]\<rparr>
                  else \<comment> \<open>the exception of \<^verbatim>\<open>process.kill\<close> is caught and logged\<close>
                    \<lparr>sys_actions = checked @ [ReadArgv p, SigTerm p],
                     task_calls = [Finish NoResult]\<rparr>))"

text \<open>The four identity checks, each stated on its own.\<close>

definition liveness_check :: "kill_env \<Rightarrow> bool" where
  "liveness_check env = probe_ok env"

definition parent_check :: "kill_payload \<Rightarrow> kill_env \<Rightarrow> bool" where
  "parent_check payload env =
     (case ps_output env of
        None \<Rightarrow> False
      | Some buf \<Rightarrow> to_js (at_index (split buf CHR '' '') 0) = ppid payload)"

definition context_check :: "kill_env \<Rightarrow> bool" where
  "context_check env =
     (case ps_output env of
        None \<Rightarrow> False
      | Some buf \<Rightarrow> at_index (split buf CHR '' '') 1 = Some ''global'')"

definition argv_check :: "kill_env \<Rightarrow> bool" where
  "argv_check env =
     (case argv_file env of
        None \<Rightarrow> False
      | Some argv \<Rightarrow> sublist ''/machine-migrate.js'' argv)"

definition signal_sent :: "kill_outcome \<Rightarrow> bool" where
  "signal_sent r = list_ex (\<lambda>a. case a of SigTerm p \<Rightarrow> True | _ \<Rightarrow> False) (sys_actions r)"



section \<open>External commands: zfsErrorStr, zfsError, deleteSnapshot\<close>

text \<open>
  The arguments \<^verbatim>\<open>child_process.execFile\<close> hands to its callback: the error (with
  its \<^verbatim>\<open>killed\<close> flag and \<^verbatim>\<open>message\<close>) or null, and the two output streams.
\<close>

record exec_error =
  killed :: bool
  err_message :: string

record exec_result =
  err :: "exec_error option"
  stdout :: string
  stderr :: string

text \<open>
  One \<^verbatim>\<open>execFile\<close> invocation: program, arguments and the \<^verbatim>\<open>timeout\<close> option
  in milliseconds (\<open>None\<close> when no option is passed).
\<close>

record exec_call =
  cmd :: string
  args :: "string list"
  timeout :: "nat option"

datatype thrown = AssertionError string | FormatError string

text \<open>
  \<^verbatim>\<open>new VError(text)\<close> builds its message with \<^verbatim>\<open>sprintf\<close> of extsprintf, the
  text being the format and no further argument given. A conversion specifier is a
  \<^verbatim>\<open>%\<close> followed by flags, a width, a precision, length modifiers and a conversion
  character.
\<close>

definition is_flag :: "char \<Rightarrow> bool" where
  "is_flag c = (c \<in> set [CHR 0x27, CHR ''-'', CHR ''+'', CHR '' '', CHR ''#'', CHR ''0''])"

definition is_length_mod :: "char \<Rightarrow> bool" where
  "is_length_mod c = (c \<in> set ''lhjztL'')"

definition is_conversion :: "char \<Rightarrow> bool" where
  "is_conversion c = (c \<in> set ''diouxXfFeEgGaAcCsSp%jr'')"

text \<open>A number that starts with a digit from 1 to 9, when there is one.\<close>

definition skip_number :: "string \<Rightarrow> string" where
  "skip_number s =
     (case s of
        [] \<Rightarrow> s
      | c # cs \<Rightarrow> if is_digit c \<and> c \<noteq> CHR ''0'' then dropWhile is_digit cs else s)"

text \<open>
  The specifier at the start of the text after a \<^verbatim>\<open>%\<close>: how many characters it
  takes and its conversion character, or \<open>None\<close> when the text does not start with one.
\<close>

definition parse_spec :: "string \<Rightarrow> (nat \<times> char) option" where
  "parse_spec s =
     (let s1 = dropWhile is_flag s;
          s2 = skip_number s1;
          s3 = (case s2 of
                  [] \<Rightarrow> s2
                | c # cs \<Rightarrow>
                    if c = CHR ''.'' \<and> skip_number cs \<noteq> cs then skip_number cs else s2);
          s4 = dropWhile (\<lambda>c. is_length_mod c \<and> \<not> is_conversion c) s3
      in case s4 of
           [] \<Rightarrow> None
         | c # cs \<Rightarrow> if is_conversion c then Some (length s - length cs, c) else None)"

text \<open>
  The leftmost match of the specifier pattern: the plain text in front of its
  \<^verbatim>\<open>%\<close> that belongs to the match, the length of the match and the conversion. A
  \<^verbatim>\<open>%\<close> that starts no specifier is passed over, and the match then begins after it.
\<close>

fun find_match :: "string \<Rightarrow> string \<Rightarrow> (string \<times> nat \<times> char) option" where
  "find_match seen [] = None"
| "find_match seen (c # cs) =
     (if c = CHR ''%'' then
        (case parse_spec cs of
           Some (n, conv) \<Rightarrow> Some (rev seen, length seen + 1 + n, conv)
         | None \<Rightarrow> find_match [] cs)
      else find_match (c # seen) cs)"

lemma find_match_positive:
  "find_match seen fmt = Some (m, n, conv) \<Longrightarrow> 0 < n \<and> fmt \<noteq> []"
  by (induction seen fmt rule: find_match.induct) (auto split: if_splits option.splits)

text \<open>
  The loop of \<^verbatim>\<open>sprintf\<close>: the matched plain text is appended and the length of the
  match is cut off the front of the format; \<^verbatim>\<open>%%\<close> gives a percent sign, and any other
  conversion finds no argument and throws.
\<close>

function sprintf :: "string \<Rightarrow> string \<Rightarrow> thrown + string" where
  "sprintf ret fmt =
     (case find_match [] fmt of
        None \<Rightarrow> Inr (ret @ fmt)
      | Some (m, n, conv) \<Rightarrow>
          if conv = CHR ''%'' then sprintf (ret @ m @ ''%'') (drop n fmt)
          else Inl (FormatError ''too few args to sprintf''))"
  by pat_completeness auto
termination
proof (relation "measure (\<lambda>(ret, fmt). length fmt)")
  show "wf (measure (\<lambda>(ret, fmt). length fmt))"
    by simp
next
  fix ret fmt found m rest n conv
  assume "find_match [] fmt = Some found" "(m, rest) = found" "(n, conv) = rest"
    "conv = CHR ''%''"
  then have "find_match [] fmt = Some (m, n, conv)"
    by simp
  from find_match_positive [OF this]
  show "((ret @ m @ ''%'', drop n fmt), (ret, fmt)) \<in> measure (\<lambda>(ret, fmt). length fmt)"
    by (cases fmt) auto
qed

declare sprintf.simps [simp del]

definition zfsErrorStr :: "exec_error option \<Rightarrow> string \<Rightarrow> string" where
  "zfsErrorStr error stderr_text =
     (case error of
        None \<Rightarrow> []
      | Some e \<Rightarrow>
          if killed e then ''Process killed due to timeout.''
          else if err_message e \<noteq> [] then err_message e
          else (if stderr_text \<noteq> [] then stderr_text else []))"

text \<open>\<^verbatim>\<open>zfsError\<close>: the error object, unless building its message throws.\<close>

definition zfsError :: "string \<Rightarrow> exec_error option \<Rightarrow> string \<Rightarrow> thrown + js_error" where
  "zfsError prefixMsg error stderr_text =
     (case sprintf [] (prefixMsg @ '': '' @ zfsErrorStr error stderr_text) of
        Inl t \<Rightarrow> Inl t
      | Inr m \<Rightarrow> Inr (JsError m (Some stderr_text)))"

definition deleteSnapshot_call :: "string \<Rightarrow> exec_call" where
  "deleteSnapshot_call snapshot =
     \<lparr>cmd = ''/usr/sbin/zfs'', args = [''destroy'', ''-r'', snapshot],
      timeout = Some (5 * 60 * 1000)\<rparr>"

text \<open>
  The callback \<^verbatim>\<open>deleteSnapshot\<close> gives to \<^verbatim>\<open>execFile\<close>: what it passes on to
  the caller's callback, or what it throws before calling it.
\<close>

definition deleteSnapshot_cb :: "exec_result \<Rightarrow> thrown + js_error option" where
  "deleteSnapshot_cb r =
     (if err r \<noteq> None \<and>
         indexOf (stderr r) ''could not find any snapshots to destroy'' = -1
      then (case zfsError ''zfs snapshot destroy failure'' (err r) (stderr r) of
              Inl t \<Rightarrow> Inl t
            | Inr e \<Rightarrow> Inr (Some e))
      else Inr None)"

text \<open>
  \<^verbatim>\<open>deleteSnapshot\<close>: the two \<^verbatim>\<open>assert.ok\<close> checks throw before anything runs;
  otherwise the command is issued and the caller's callback receives an error or nothing,
  unless the callback given to \<^verbatim>\<open>execFile\<close> throws.
\<close>

definition deleteSnapshot :: "string \<Rightarrow> exec_result \<Rightarrow> thrown + (exec_call \<times> js_error option)" where
  "deleteSnapshot snapshot r =
     (if \<not> length snapshot > 0 then Inl (AssertionError ''snapshot.length > 0'')
      else if \<not> lastIndexOf snapshot CHR ''@'' > 0
        then Inl (AssertionError
               (''snapshot.lastIndexOf('' @ [CHR 0x22, CHR ''@'', CHR 0x22] @ '') > 0''))
      else (case deleteSnapshot_cb r of
              Inl t \<Rightarrow> Inl t
            | Inr e \<Rightarrow> Inr (deleteSnapshot_call snapshot, e)))"

text \<open>The other three \<^verbatim>\<open>zfs\<close> invocations, with the options they are given.\<close>

definition createSnapshot_call :: "string \<Rightarrow> exec_call" where
  "createSnapshot_call snapshot =
     \<lparr>cmd = ''/usr/sbin/zfs'', args = [''snapshot'', ''-r'', snapshot],
      timeout = Some (5 * 60 * 1000)\<rparr>"

definition getEstimate_call :: "string \<Rightarrow> exec_call" where
  "getEstimate_call snapshot =
     \<lparr>cmd = ''/usr/sbin/zfs'',
      args = [''send'', ''--dryrun'', ''--parsable'', ''--replicate'', snapshot],
      timeout = Some (5 * 60 * 1000)\<rparr>"

definition listSnapshots_call :: "string \<Rightarrow> exec_call" where
  "listSnapshots_call dataset =
     \<lparr>cmd = ''/usr/sbin/zfs'',
      args = [''list'', ''-t'', ''snapshot'', ''-r'', ''-H'', ''-o'', ''name'', dataset],
      timeout = None\<rparr>"

text \<open>
  How a command would run if left alone: how long it takes in milliseconds (\<open>None\<close> when
  it never ends) and what its callback would then receive.
\<close>

record command_run =
  duration :: "nat option"
  outcome :: exec_result

text \<open>
  Node's documented \<^verbatim>\<open>timeout\<close> option of \<^verbatim>\<open>execFile\<close>: when it is greater than 0
  and the child runs longer, the child is killed and the callback gets an error whose
  \<^verbatim>\<open>killed\<close> flag is set; with no timeout the callback only runs once the child ends.
  \<open>None\<close> means the callback never runs.
\<close>

definition execFile :: "exec_call \<Rightarrow> command_run \<Rightarrow> exec_result option" where
  "execFile c run =
     (let expired = (case timeout c of
                       None \<Rightarrow> False
                     | Some t \<Rightarrow> 0 < t \<and> (case duration run of None \<Rightarrow> True | Some d \<Rightarrow> t < d))
      in if expired
         then Some ((outcome run)\<lparr>err := Some \<lparr>killed = True,
                 err_message = ''Command failed: '' @ cmd c @ concat (map (\<lambda>a. CHR '' '' # a) (args c))\<rparr>\<rparr>)
         else (case duration run of None \<Rightarrow> None | Some d \<Rightarrow> Some (outcome run)))"

text \<open>\<^verbatim>\<open>listSnapshots\<close>: the error or the non-empty lines of the output.\<close>

definition listSnapshots_cb :: "exec_result \<Rightarrow> thrown + (js_error + string list)" where
  "listSnapshots_cb r =
     (if err r \<noteq> None then
        (case zfsError ''zfs list failure'' (err r) (stderr r) of
           Inl t \<Rightarrow> Inl t
         | Inr e \<Rightarrow> Inr (Inl e))
      else Inr (Inr (filter (\<lambda>name. name \<noteq> []) (split (trim (stdout r)) CHR 0x0A))))"


section \<open>estimate: the per-dataset pipeline\<close>

definition SNAPSHOT_NAME_PREFIX :: string where
  "SNAPSHOT_NAME_PREFIX = ''vm-migrate-estimate''"

text \<open>
  The part of \<^verbatim>\<open>payload.vm\<close> that \<^verbatim>\<open>estimate\<close> reads. \<open>disks\<close> is \<open>None\<close> when
  \<^verbatim>\<open>vm.disks\<close> is not an array, else the \<^verbatim>\<open>zfs_filesystem\<close> of every disk.
\<close>

record vm =
  brand :: string
  zfs_filesystem :: string
  disks :: "string list option"

definition estimate_datasets :: "vm \<Rightarrow> string list" where
  "estimate_datasets v =
     zfs_filesystem v #
       (if brand v = ''kvm'' then (case disks v of None \<Rightarrow> [] | Some ds \<Rightarrow> ds) else [])"

text \<open>
  What is observed of one pipeline: a command being started, the callback of a command
  running, and the completion callback \<^verbatim>\<open>next\<close> being called.
\<close>

datatype pipe_action =
    Spawn exec_call
  | Callback exec_call
  | Next "js_error option"

text \<open>
  The pipeline context \<^verbatim>\<open>ctx\<close>, the accumulator \<^verbatim>\<open>estimatedSize\<close> of the
  enclosing \<^verbatim>\<open>estimate\<close>, and what has been observed so far.
\<close>

record pipe_state =
  snapshot :: string
  snapshotCreated :: bool
  estimatedSize :: js_number
  observed :: "pipe_action list"

text \<open>What the four commands of one dataset and the compensating delete answer.\<close>

record dataset_env =
  del_prev :: exec_result
  snap :: exec_result
  send :: exec_result
  cleanup :: exec_result
  compensate :: exec_result

type_synonym pipe_step = "pipe_state \<Rightarrow> thrown + (js_error option \<times> pipe_state)"

text \<open>\<^verbatim>\<open>deletePreviousSnapshot\<close> and \<^verbatim>\<open>cleanupSnapshot\<close>.\<close>

definition deleteStep :: "exec_result \<Rightarrow> pipe_step" where
  "deleteStep r st =
     (case deleteSnapshot (snapshot st) r of
        Inl a \<Rightarrow> Inl a
      | Inr (c, e) \<Rightarrow> Inr (e, st\<lparr>observed := observed st @ [Spawn c, Callback c]\<rparr>))"

definition createSnapshot :: "exec_result \<Rightarrow> pipe_step" where
  "createSnapshot r st =
     (let c = createSnapshot_call (snapshot st);
          st1 = st\<lparr>observed := observed st @ [Spawn c, Callback c]\<rparr>
      in if err r \<noteq> None
         then (case zfsError ''zfs snapshot failure'' (err r) (stderr r) of
                 Inl t \<Rightarrow> Inl t
               | Inr e \<Rightarrow> Inr (Some e, st1))
         else Inr (None, st1\<lparr>snapshotCreated := True\<rparr>))"

text \<open>\<^verbatim>\<open>lines.splice(-1)[0].trim()\<close> of the trimmed output split at newlines.\<close>

definition lastLine :: "string \<Rightarrow> string" where
  "lastLine out =
     (case rev (split (trim out) CHR 0x0A) of [] \<Rightarrow> [] | l # ls \<Rightarrow> trim l)"

text \<open>
  The capture group of \<^verbatim>\<open>/^size\s+(\d+)$/\<close>: after \<^verbatim>\<open>size\<close>, at least one white
  space character, then digits only up to the end.
\<close>

definition match_size :: "string \<Rightarrow> string option" where
  "match_size l =
     (if take 4 l = ''size'' then
        (let r = drop 4 l; ds = dropWhile is_space r
         in if takeWhile is_space r \<noteq> [] \<and> ds \<noteq> [] \<and> list_all is_digit ds
            then Some ds else None)
      else None)"

definition getEstimate :: "exec_result \<Rightarrow> pipe_step" where
  "getEstimate r st =
     (let c = getEstimate_call (snapshot st);
          st1 = st\<lparr>observed := observed st @ [Spawn c, Callback c]\<rparr>
      in if err r \<noteq> None
         then (case zfsError ''zfs snapshot error'' (err r) (stderr r) of
                 Inl t \<Rightarrow> Inl t
               | Inr e \<Rightarrow> Inr (Some e, st1))
         else case match_size (lastLine (stdout r)) of
                None \<Rightarrow> Inr (Some (JsError ''Unable to get zfs send estimate'' None), st1)
              | Some ds \<Rightarrow>
                  Inr (None, st1\<lparr>estimatedSize := js_add (estimatedSize st1) (Number_of ds)\<rparr>))"

text \<open>
  \<^verbatim>\<open>vasync.pipeline\<close>: the steps run in order, the first error stops the sequence and
  is handed to the final callback.
\<close>

fun pipeline :: "pipe_step list \<Rightarrow> pipe_step" where
  "pipeline [] st = Inr (None, st)"
| "pipeline (f # fs) st =
     (case f st of
        Inl a \<Rightarrow> Inl a
      | Inr (Some e, st1) \<Rightarrow> Inr (Some e, st1)
      | Inr (None, st1) \<Rightarrow> pipeline fs st1)"

text \<open>
  \<^verbatim>\<open>_onEstimateOneDatasetPipelineCb\<close>. With an error and a created snapshot,
  \<^verbatim>\<open>deleteSnapshot\<close> starts the command and returns; the statements after the inner
  \<^verbatim>\<open>if\<close> then call \<^verbatim>\<open>next(err)\<close> at once, and \<^verbatim>\<open>_deleteCb\<close> calls it again
  when the command has ended, whatever \<^verbatim>\<open>err2\<close> is.
\<close>

definition onEstimateOneDatasetPipelineCb ::
    "js_error option \<Rightarrow> exec_result \<Rightarrow> pipe_state \<Rightarrow> thrown + pipe_state" where
  "onEstimateOneDatasetPipelineCb error r st =
     (case error of
        Some e \<Rightarrow>
          if snapshotCreated st then
            (case deleteSnapshot (snapshot st) r of
               Inl a \<Rightarrow> Inl a
             | Inr (c, err2) \<Rightarrow>
                 Inr (st\<lparr>observed := observed st @
                        [Spawn c, Next (Some e), Callback c, Next (Some e)]\<rparr>))
          else Inr (st\<lparr>observed := observed st @ [Next (Some e)]\<rparr>)
      | None \<Rightarrow> Inr (st\<lparr>observed := observed st @ [Next None]\<rparr>))"

definition estimateOneDataset ::
    "string \<Rightarrow> dataset_env \<Rightarrow> js_number \<Rightarrow> thrown + pipe_state" where
  "estimateOneDataset dataset env size0 =
     (let ctx = \<lparr>snapshot = dataset @ ''@'' @ SNAPSHOT_NAME_PREFIX, snapshotCreated = False,
                 estimatedSize = size0, observed = []\<rparr>
      in case pipeline [deleteStep (del_prev env), createSnapshot (snap env),
                        getEstimate (send env), deleteStep (cleanup env)] ctx of
           Inl a \<Rightarrow> Inl a
         | Inr (error, st) \<Rightarrow> onEstimateOneDatasetPipelineCb error (compensate env) st)"

text \<open>The arguments of the calls to \<^verbatim>\<open>next\<close>, in order.\<close>

fun next_calls :: "pipe_action list \<Rightarrow> js_error option list" where
  "next_calls [] = []"
| "next_calls (Next e # as) = e # next_calls as"
| "next_calls (a # as) = next_calls as"

text \<open>
  The datasets in turn, each with the answers of its commands, sharing
  \<^verbatim>\<open>estimatedSize\<close>. The pipelines run interleaved; the accumulator is their only
  common state and is only ever added to.
\<close>

fun estimateAll ::
    "(string \<times> dataset_env) list \<Rightarrow> js_number \<Rightarrow>
       thrown + (pipe_action list list \<times> js_number)" where
  "estimateAll [] size0 = Inr ([], size0)"
| "estimateAll ((dataset, env) # rest) size0 =
     (case estimateOneDataset dataset env size0 of
        Inl a \<Rightarrow> Inl a
      | Inr st \<Rightarrow>
          (case estimateAll rest (estimatedSize st) of
             Inl a \<Rightarrow> Inl a
           | Inr (traces, final_size) \<Rightarrow> Inr (observed st # traces, final_size)))"

datatype estimate_outcome =
    Uncaught thrown
  | CallbackMisuse
  | Completed "task_call list"

text \<open>
  \<^verbatim>\<open>estimate\<close> with \<^verbatim>\<open>_onEstimateComplete\<close>. \<^verbatim>\<open>vasync.forEachParallel\<close> calls
  back once every input has called \<^verbatim>\<open>next\<close>, with the errors collected; what it does
  when an input calls \<^verbatim>\<open>next\<close> more than once is outside its contract and is kept apart
  as \<open>CallbackMisuse\<close>. \<open>envs\<close> gives the answers for the dataset at each position.
\<close>

definition estimate :: "vm \<Rightarrow> (nat \<Rightarrow> dataset_env) \<Rightarrow> estimate_outcome" where
  "estimate v envs =
     (let datasets = estimate_datasets v
      in case estimateAll (zip datasets (map envs [0..<length datasets])) (Finite 0) of
           Inl a \<Rightarrow> Uncaught a
         | Inr (traces, final_size) \<Rightarrow>
             if list_ex (\<lambda>t. length (next_calls t) \<noteq> 1) traces then CallbackMisuse
             else (case List.map_filter id (concat (map next_calls traces)) of
                     [] \<Rightarrow> Completed [Finish (SizeResult final_size)]
                   | e # es \<Rightarrow> Completed [Fatal (MultiError (e # es)) None]))"

text \<open>The integer the dry-run output of a dataset states as its size.\<close>

definition parsed_size :: "dataset_env \<Rightarrow> nat option" where
  "parsed_size env = map_option decimal_value (match_size (lastLine (stdout (send env))))"

text \<open>One dataset's pipeline succeeds: it calls \<^verbatim>\<open>next\<close> once, without an error.\<close>

definition pipeline_succeeds :: "string \<Rightarrow> dataset_env \<Rightarrow> bool" where
  "pipeline_succeeds dataset env =
     (case estimateOneDataset dataset env (Finite 0) of
        Inl a \<Rightarrow> False
      | Inr st \<Rightarrow> next_calls (observed st) = [None])"


section \<open>The synchronous behaviours\<close>

definition is_hex :: "char \<Rightarrow> bool" where
  "is_hex c = (c \<in> set ''0123456789abcdefABCDEF'')"

text \<open>
  \<^verbatim>\<open>assert.uuid\<close> of assert-plus: eight, four, four, four and twelve hexadecimal
  digits, separated by dashes.
\<close>

definition is_uuid :: "string \<Rightarrow> bool" where
  "is_uuid s =
     (length s = 36 \<and>
      list_all (\<lambda>i. if i \<in> set [8, 13, 18, 23] then s ! i = CHR ''-'' else is_hex (s ! i))
        [0..<36])"

record sync_call =
  sync_cmd :: string
  sync_args :: "string list"

text \<open>
  \<^verbatim>\<open>execFileSync\<close> either throws (\<open>Inl\<close>, the exception's text) or returns the output.
  In each behaviour \<^verbatim>\<open>buf\<close> is declared without a value and assigned only by a call that
  returns.
\<close>

definition sync_behaviour :: "sync_call \<Rightarrow> string + string \<Rightarrow> sync_call \<times> task_call list" where
  "sync_behaviour c result =
     (let buf = None
      in case result of
           Inr out \<Rightarrow> (let buf = Some out in (c, [Finish NoResult]))
         | Inl ex \<Rightarrow> (c, [Fatal (Msg (js_String buf)) None]))"

definition setupFilesystem ::
    "string \<Rightarrow> string + string \<Rightarrow> thrown + (sync_call \<times> task_call list)" where
  "setupFilesystem vm_uuid result =
     (if \<not> is_uuid vm_uuid then Inl (AssertionError ''payload.vm_uuid'')
      else Inr (sync_behaviour
             \<lparr>sync_cmd = ''/usr/sbin/zfs'', sync_args = [''mount'', ''zones/'' @ vm_uuid]\<rparr>
             result))"

definition setDoNotInventory ::
    "string \<Rightarrow> string \<Rightarrow> string + string \<Rightarrow> thrown + (sync_call \<times> task_call list)" where
  "setDoNotInventory vm_uuid val result =
     (if \<not> is_uuid vm_uuid then Inl (AssertionError ''payload.vm_uuid'')
      else Inr (sync_behaviour
             \<lparr>sync_cmd = ''/usr/sbin/vmadm'',
              sync_args = [''update'', vm_uuid, ''do_not_inventory='' @ val]\<rparr>
             result))"

definition setAutoboot ::
    "string \<Rightarrow> string \<Rightarrow> string + string \<Rightarrow> thrown + (sync_call \<times> task_call list)" where
  "setAutoboot vm_uuid val result =
     (if \<not> is_uuid vm_uuid then Inl (AssertionError ''payload.vm_uuid'')
      else Inr (sync_behaviour
             \<lparr>sync_cmd = ''/usr/sbin/vmadm'',
              sync_args = [''update'', vm_uuid, ''autoboot='' @ val]\<rparr>
             result))"


text \<open>The calls a synchronous behaviour made on the task, when it did not throw.\<close>

definition sync_task_calls :: "thrown + (sync_call \<times> task_call list) \<Rightarrow> task_call list option" where
  "sync_task_calls r = (case r of Inl a \<Rightarrow> None | Inr (c, made) \<Rightarrow> Some made)"


section \<open>Example inputs\<close>

text \<open>A command that ended normally with the given output.\<close>

definition succeeded :: "string \<Rightarrow> exec_result" where
  "succeeded out = \<lparr>err = None, stdout = out, stderr = []\<rparr>"

text \<open>A command that ended with a non-zero status and the given diagnostic output.\<close>

definition failed :: "string \<Rightarrow> exec_result" where
  "failed diag =
     \<lparr>err = Some \<lparr>killed = False, err_message = ''Command failed''\<rparr>, stdout = [],
      stderr = diag\<rparr>"

text \<open>A dataset whose four commands all succeed, the dry run printing the given text.\<close>

definition healthy :: "string \<Rightarrow> dataset_env" where
  "healthy out =
     \<lparr>del_prev = succeeded [], snap = succeeded [], send = succeeded out,
      cleanup = succeeded [], compensate = succeeded []\<rparr>"

text \<open>
  A kvm machine with one disk; the dry run of the machine's dataset states
  \<open>2 ^ 53\<close> bytes and that of the disk one byte.
\<close>

definition large_vm :: vm where
  "large_vm =
     \<lparr>brand = ''kvm'', zfs_filesystem = ''zones/abc'', disks = Some [''zones/abc-disk0'']\<rparr>"

definition large_envs :: "nat \<Rightarrow> dataset_env" where
  "large_envs i = healthy (if i = 0 then ''size 9007199254740992'' else ''size 1'')"

text \<open>
  What \<^verbatim>\<open>execFile\<close> reports when \<^verbatim>\<open>zfs destroy\<close> rejects a snapshot name: the
  message repeats the command line, and with it the name.
\<close>

definition rejected_name :: exec_result where
  "rejected_name =
     \<lparr>err = Some \<lparr>killed = False,
                  err_message =
                    ''Command failed: /usr/sbin/zfs destroy -r zones/a%sb@vm-migrate-estimate''\<rparr>,
      stdout = [], stderr = ''cannot open: invalid dataset name''\<rparr>"


text \<open>Everything the worker wrote to its diagnostic stream, as one string.\<close>

definition stderr_stream :: "event list \<Rightarrow> string" where
  "stderr_stream evs = concat (stderr_chunks evs)"

section \<open>Facts about the string primitives\<close>

lemma indexOf_lower_bound: "- 1 \<le> indexOf hay needle"
  by (induction hay) (auto simp: Let_def)

lemma indexOf_sublist: "indexOf hay needle = - 1 \<longleftrightarrow> \<not> sublist needle hay"
proof (induction hay)
  case Nil
  show ?case by simp
next
  case (Cons h hs)
  then show ?case
    using indexOf_lower_bound [of hs needle]
    by (auto simp: Let_def sublist_Cons_right)
qed

lemma lastIndexOf_positive: "0 < lastIndexOf s c \<Longrightarrow> 0 < length s"
  by (cases s) auto

lemma to_js_JStr: "to_js x = JStr s \<longleftrightarrow> x = Some s"
  by (cases x) auto

lemma to_double_exact: "n \<le> 2 ^ 53 \<Longrightarrow> to_double n = Finite n"
  by (simp add: to_double_def)

lemma js_add_exact: "a + b \<le> 2 ^ 53 \<Longrightarrow> js_add (Finite a) (Finite b) = Finite (a + b)"
  by (simp add: to_double_exact)

text \<open>A text without a percent sign is its own \<^verbatim>\<open>sprintf\<close>.\<close>

lemma find_match_plain: "CHR ''%'' \<notin> set fmt \<Longrightarrow> find_match seen fmt = None"
  by (induction seen fmt rule: find_match.induct) auto

lemma sprintf_plain: "CHR ''%'' \<notin> set fmt \<Longrightarrow> sprintf ret fmt = Inr (ret @ fmt)"
  by (simp add: sprintf.simps [of ret fmt] find_match_plain)

lemma zfsError_plain:
  "CHR ''%'' \<notin> set (prefixMsg @ '': '' @ zfsErrorStr error diag) \<Longrightarrow>
   zfsError prefixMsg error diag
     = Inr (JsError (prefixMsg @ '': '' @ zfsErrorStr error diag) (Some diag))"
  by (simp add: zfsError_def sprintf_plain del: set_append)

lemmas spec_unfold =
  parse_spec_def skip_number_def is_flag_def is_digit_def is_length_mod_def
  is_conversion_def Let_def


section \<open>The worker session: capture buffer\<close>

lemma length_elision: "length elision = 5"
  by (simp add: elision_def)

lemma length_collapse: "5000 < length b \<Longrightarrow> length (collapse b) = 5005"
  by (simp add: collapse_def length_elision)

text \<open>Collapsing again after more data keeps the head and the tail of the whole stream.\<close>

lemma collapse_absorbs:
  assumes "5000 < length s"
  shows "collapse (collapse s @ b) = collapse (s @ b)"
proof -
  have head_eq: "take 2500 (collapse s @ b) = take 2500 (s @ b)"
    using assms by (simp add: collapse_def)
  have tail_eq: "drop (length (collapse s @ b) - 2500) (collapse s @ b)
         = drop (length (s @ b) - 2500) (s @ b)"
    using assms by (simp add: collapse_def length_elision add.commute)
  show ?thesis
    unfolding collapse_def [of "collapse s @ b"] collapse_def [of "s @ b"] head_eq tail_eq ..
qed

lemma capture_of_chunks:
  "foldl on_stderr None cs =
     (if cs = [] then None
      else if 5000 < length (concat cs) then Some (collapse (concat cs))
      else Some (concat cs))"
proof (induction cs rule: rev_induct)
  case Nil
  show ?case by simp
next
  case (snoc c cs)
  show ?case
  proof (cases "cs = []")
    case True
    then show ?thesis by (simp add: on_stderr_def)
  next
    case False
    show ?thesis
    proof (cases "5000 < length (concat cs)")
      case True
      with False snoc show ?thesis
        by (simp add: on_stderr_def length_collapse collapse_absorbs)
    next
      case False
      with \<open>cs \<noteq> []\<close> snoc show ?thesis
        by (simp add: on_stderr_def)
    qed
  qed
qed

lemma limitedStderr_deliver:
  "limitedStderr (foldl (deliver agent) s evs)
     = foldl on_stderr (limitedStderr s) (stderr_chunks evs)"
proof (induction evs arbitrary: s)
  case Nil
  show ?case by simp
next
  case (Cons e evs)
  show ?case
    by (cases e)
      (simp_all add: Cons.IH on_message_def on_message_body_def on_exit_def Let_def
         split: option.splits)
qed

text \<open>
  Claim C4, as the code has it: once the worker has written more than 5000 bytes to its
  diagnostic stream, the capture after every chunk is the first 2500 bytes of the stream,
  the five-byte marker and the last 2500 bytes of the stream so far; it is 5005 bytes long
  however much more arrives.
\<close>

theorem stderr_capture_collapsed:
  "5000 < length (stderr_stream evs) \<Longrightarrow>
     limitedStderr (run_session agent evs)
       = Some (take 2500 (stderr_stream evs) @ elision @
               drop (length (stderr_stream evs) - 2500) (stderr_stream evs))
   \<and> length (js_String (limitedStderr (run_session agent evs))) = 5005"
  unfolding run_session_def limitedStderr_deliver stderr_stream_def
  by (auto simp: startChildProcess_def capture_of_chunks length_collapse)
     (simp add: collapse_def)

text \<open>Two chunks of 3000 bytes: the capture keeps 2500 bytes of each around the marker.\<close>

theorem stderr_capture_collapsed_witness:
  "5000 < length (stderr_stream
       [StderrData (replicate 3000 CHR ''a''), StderrData (replicate 3000 CHR ''b'')])
   \<and> limitedStderr (run_session 100
       [StderrData (replicate 3000 CHR ''a''), StderrData (replicate 3000 CHR ''b'')])
     = Some (replicate 2500 CHR ''a'' @ elision @ replicate 2500 CHR ''b'')"
  using stderr_capture_collapsed
    [of "[StderrData (replicate 3000 CHR ''a''), StderrData (replicate 3000 CHR ''b'')]" 100]
  by (simp add: stderr_stream_def)

text \<open>
  Claim C4 as stated fails: after a single chunk of 5001 bytes the capture holds 5005
  bytes, more than 5000.
\<close>

theorem stderr_capture_exceeds_5000:
  "\<not> length (js_String (limitedStderr
        (run_session 100 [StderrData (replicate 5001 CHR ''a'')]))) \<le> 5000"
  by (simp add: run_session_def startChildProcess_def on_stderr_def collapse_def elision_def)


section \<open>The worker session: completion\<close>

lemma calls_deliver:
  "onceCalled s = handledResponse s \<Longrightarrow>
   length (calls (foldl (deliver agent) s evs)) =
     length (calls s) +
       (if handledResponse s then 0
        else exits_before_message evs + (if list_ex is_message evs then 1 else 0))"
proof (induction evs arbitrary: s)
  case Nil
  show ?case by simp
next
  case (Cons e evs)
  show ?case
  proof (cases e)
    case (Message r)
    show ?thesis
      using Cons.prems
      by (simp add: Message Cons.IH on_message_def on_message_body_def Let_def
            split: option.splits)
  next
    case (Exit c sg)
    show ?thesis
      using Cons.prems by (simp add: Exit Cons.IH on_exit_def)
  qed (use Cons.prems in \<open>simp_all add: Cons.IH\<close>)
qed

lemma flags_deliver:
  "onceCalled s = handledResponse s \<Longrightarrow>
     handledResponse (foldl (deliver agent) s evs) = (handledResponse s \<or> list_ex is_message evs)
   \<and> onceCalled (foldl (deliver agent) s evs) = (handledResponse s \<or> list_ex is_message evs)"
proof (induction evs arbitrary: s)
  case Nil
  then show ?case by simp
next
  case (Cons e evs)
  show ?case
    using Cons.prems
    by (cases e)
      (auto simp add: Cons.IH on_message_def on_message_body_def on_exit_def Let_def
         split: option.splits)
qed

text \<open>
  Every exit delivered before the first result message makes a call, and so does the first
  result message; nothing else does.
\<close>

lemma completions_count:
  "length (calls (run_session agent evs))
     = exits_before_message evs + (if list_ex is_message evs then 1 else 0)"
  using calls_deliver [of startChildProcess agent evs]
  by (simp add: run_session_def startChildProcess_def)

text \<open>Once a result message was handled, neither another one nor the exit does anything.\<close>

lemma handled_result_is_final:
  "list_ex is_message pre \<Longrightarrow>
     run_session agent (pre @ [Message r]) = run_session agent pre
   \<and> run_session agent (pre @ [Exit c sg]) = run_session agent pre"
  using flags_deliver [of startChildProcess agent pre]
  by (auto simp: run_session_def startChildProcess_def on_message_def on_exit_def)

text \<open>
  Claim C1 at the sequence in which the exit is delivered before the result message: the
  exit handler calls \<^verbatim>\<open>fatal\<close>, the result handler then calls \<^verbatim>\<open>finish\<close>, and the
  task is completed twice, not exactly once.
\<close>

theorem exit_then_message_completes_twice:
  "length (calls (run_session 100
     [Exit (Some 0) None, Message \<lparr>result_error = None, result_fields = []\<rparr>])) = 2"
  by (simp add: run_session_def startChildProcess_def on_exit_def on_message_def
        on_message_body_def)

lemma quiet_deliver: "list_all quiet pre \<Longrightarrow> foldl (deliver agent) s pre = s"
  by (induction pre rule: exits_before_message.induct) (auto simp: quiet_def)

text \<open>
  Claim C9: when the worker exits before any result message was handled and nothing was
  ever read from its diagnostic stream, the task is failed with the exit message and with
  the detail \<^verbatim>\<open>"undefined"\<close>.
\<close>

theorem exit_without_stderr_reports_undefined:
  "list_all quiet pre \<Longrightarrow>
   calls (run_session agent (pre @ [Exit code signal]))
     = [Fatal (Msg (exit_message code signal)) (Some ''undefined'')]"
  by (simp add: run_session_def quiet_deliver on_exit_def startChildProcess_def)

theorem exit_without_stderr_reports_undefined_witness:
  "list_all quiet [StdoutData ''starting'', Disconnect]
   \<and> calls (run_session 100 ([StdoutData ''starting'', Disconnect] @ [Exit (Some 1) None]))
     = [Fatal (Msg ''machine-migrate exit error (code 1, signal null)'') (Some ''undefined'')]"
  using exit_without_stderr_reports_undefined
    [of "[StdoutData ''starting'', Disconnect]" 100 "Some 1" None]
  by (simp add: exit_message_def quiet_def)



section \<open>killChild\<close>

text \<open>
  Claim C3: with a process id supplied, the task always finishes without an error, also
  when signalling fails, and the termination signal is sent exactly when the liveness
  probe, the parent process id, the zone name and the argument vector all pass; if any one
  of them fails no signal is sent.
\<close>

theorem killChild_signal_iff_checks:
  "truthy (pid payload) \<Longrightarrow>
     task_calls (killChild payload env) = [Finish NoResult]
   \<and> (signal_sent (killChild payload env) \<longleftrightarrow>
        liveness_check env \<and> parent_check payload env \<and> context_check env \<and> argv_check env)"
  by (auto simp: killChild_def Let_def signal_sent_def liveness_check_def parent_check_def
        context_check_def argv_check_def indexOf_sublist to_js_JStr split: option.splits)

text \<open>
  A process in another zone is left alone; one that passes all four checks is signalled,
  and the task finishes although the signal could not be delivered.
\<close>

theorem killChild_signal_iff_checks_witness:
  "truthy (JNum 4242)
   \<and> \<not> context_check
       \<lparr>probe_ok = True, ps_output = Some ''77 zone1'',
        argv_file = Some ''node /x/machine-migrate.js'', sigterm_ok = True\<rparr>
   \<and> \<not> signal_sent (killChild \<lparr>pid = JNum 4242, ppid = JStr ''77''\<rparr>
       \<lparr>probe_ok = True, ps_output = Some ''77 zone1'',
        argv_file = Some ''node /x/machine-migrate.js'', sigterm_ok = True\<rparr>)
   \<and> task_calls (killChild \<lparr>pid = JNum 4242, ppid = JStr ''77''\<rparr>
       \<lparr>probe_ok = True, ps_output = Some ''77 zone1'',
        argv_file = Some ''node /x/machine-migrate.js'', sigterm_ok = True\<rparr>)
       = [Finish NoResult]
   \<and> signal_sent (killChild \<lparr>pid = JNum 4242, ppid = JStr ''77''\<rparr>
       \<lparr>probe_ok = True, ps_output = Some ''77 global'',
        argv_file = Some ''node /x/machine-migrate.js'', sigterm_ok = False\<rparr>)
   \<and> task_calls (killChild \<lparr>pid = JNum 4242, ppid = JStr ''77''\<rparr>
       \<lparr>probe_ok = True, ps_output = Some ''77 global'',
        argv_file = Some ''node /x/machine-migrate.js'', sigterm_ok = False\<rparr>)
       = [Finish NoResult]"
  using killChild_signal_iff_checks
      [of "\<lparr>pid = JNum 4242, ppid = JStr ''77''\<rparr>"
          "\<lparr>probe_ok = True, ps_output = Some ''77 zone1'',
           argv_file = Some ''node /x/machine-migrate.js'', sigterm_ok = True\<rparr>"]
    killChild_signal_iff_checks
      [of "\<lparr>pid = JNum 4242, ppid = JStr ''77''\<rparr>"
          "\<lparr>probe_ok = True, ps_output = Some ''77 global'',
           argv_file = Some ''node /x/machine-migrate.js'', sigterm_ok = False\<rparr>"]
  by (simp add: liveness_check_def parent_check_def context_check_def argv_check_def
        sublist_Cons_right)






section \<open>deleteSnapshot and the command timeouts\<close>

text \<open>
  A failed destroy whose diagnostic output has the text is a success, and any other failure
  whose error text holds no percent sign is handed on as a zfs error.
\<close>

lemma deleteSnapshot_missing_snapshot:
  "0 < lastIndexOf sname CHR ''@'' \<Longrightarrow> err r = Some e \<Longrightarrow>
   sublist ''could not find any snapshots to destroy'' (stderr r) \<Longrightarrow>
   deleteSnapshot sname r = Inr (deleteSnapshot_call sname, None)"
  using lastIndexOf_positive [of sname "CHR ''@''"]
  by (simp add: deleteSnapshot_def deleteSnapshot_cb_def indexOf_sublist)

lemma deleteSnapshot_plain_failure:
  "0 < lastIndexOf sname CHR ''@'' \<Longrightarrow> err r = Some e \<Longrightarrow>
   \<not> sublist ''could not find any snapshots to destroy'' (stderr r) \<Longrightarrow>
   CHR ''%'' \<notin> set (zfsErrorStr (Some e) (stderr r)) \<Longrightarrow>
   deleteSnapshot sname r =
     Inr (deleteSnapshot_call sname,
          Some (JsError (''zfs snapshot destroy failure: '' @ zfsErrorStr (Some e) (stderr r))
                  (Some (stderr r))))"
  using lastIndexOf_positive [of sname "CHR ''@''"]
  by (simp add: deleteSnapshot_def deleteSnapshot_cb_def indexOf_sublist zfsError_plain)

text \<open>
  Claim C7 at a snapshot name with a percent sign, which \<^verbatim>\<open>zfs destroy\<close> rejects: the
  error message repeats the name, \<^verbatim>\<open>new VError\<close> reads \<^verbatim>\<open>%s\<close> in it as a
  conversion without an argument and throws, and the caller's callback is never called,
  where the claim has it called with a zfs error.
\<close>

theorem deleteSnapshot_throws_on_percent:
  "deleteSnapshot ''zones/a%sb@vm-migrate-estimate'' rejected_name
     = Inl (FormatError ''too few args to sprintf'')"
  by (simp add: deleteSnapshot_def deleteSnapshot_cb_def rejected_name_def zfsError_def
        zfsErrorStr_def sprintf.simps [of "[]"] spec_unfold sublist_Cons_right
        indexOf_sublist)

text \<open>
  The three commands that carry the option: 300000 milliseconds. A destroy command that
  never ends is killed, and the error handed on says so.
\<close>

lemma timeouts_of_zfs_calls:
  "timeout (deleteSnapshot_call s) = Some 300000"
  "timeout (createSnapshot_call s) = Some 300000"
  "timeout (getEstimate_call s) = Some 300000"
  by (simp_all add: deleteSnapshot_call_def createSnapshot_call_def getEstimate_call_def)

lemma hung_destroy_is_killed:
  "map_option deleteSnapshot_cb
     (execFile (deleteSnapshot_call s) \<lparr>duration = None, outcome = succeeded []\<rparr>)
   = Some (Inr (Some (JsError ''zfs snapshot destroy failure: Process killed due to timeout.''
                        (Some []))))"
  by (simp add: execFile_def deleteSnapshot_call_def deleteSnapshot_cb_def succeeded_def
        zfsError_plain zfsErrorStr_def)

text \<open>
  Claim C5 on \<^verbatim>\<open>listSnapshots\<close>: the list command is started without a timeout, so it
  is never killed; its callback runs only if the command ends by itself, and then with
  the command's own result.
\<close>

theorem listSnapshots_has_no_timeout:
  "timeout (listSnapshots_call dataset) = None
   \<and> execFile (listSnapshots_call dataset) \<lparr>duration = None, outcome = r\<rparr> = None
   \<and> execFile (listSnapshots_call dataset) \<lparr>duration = Some d, outcome = r\<rparr> = Some r"
  by (simp add: listSnapshots_call_def execFile_def)



section \<open>The estimation pipeline\<close>

lemma next_calls_append: "next_calls (xs @ ys) = next_calls xs @ next_calls ys"
  by (induction xs rule: next_calls.induct) auto

lemmas pipeline_unfold =
  estimateOneDataset_def deleteStep_def createSnapshot_def getEstimate_def
  onEstimateOneDatasetPipelineCb_def Let_def next_calls_append

lemmas command_unfold =
  deleteSnapshot_def deleteSnapshot_cb_def SNAPSHOT_NAME_PREFIX_def zfsError_plain
  zfsErrorStr_def healthy_def succeeded_def failed_def

lemmas parse_unfold =
  match_size_def lastLine_def trim_def is_space_def is_digit_def decimal_value_def
  digit_val_def

text \<open>
  Claim C2 at a dataset whose snapshot is created and whose dry run then fails: the
  compensating delete is started, and \<^verbatim>\<open>next\<close> receives the original error twice,
  the first time before the delete has called back.
\<close>

theorem compensation_calls_next_twice:
  "map_sum id observed
     (estimateOneDataset ''zones/abc'' ((healthy []) \<lparr>send := failed ''cannot open''\<rparr>)
        (Finite 0))
   = Inr [Spawn (deleteSnapshot_call ''zones/abc@vm-migrate-estimate''),
          Callback (deleteSnapshot_call ''zones/abc@vm-migrate-estimate''),
          Spawn (createSnapshot_call ''zones/abc@vm-migrate-estimate''),
          Callback (createSnapshot_call ''zones/abc@vm-migrate-estimate''),
          Spawn (getEstimate_call ''zones/abc@vm-migrate-estimate''),
          Callback (getEstimate_call ''zones/abc@vm-migrate-estimate''),
          Spawn (deleteSnapshot_call ''zones/abc@vm-migrate-estimate''),
          Next (Some (JsError ''zfs snapshot error: Command failed'' (Some ''cannot open''))),
          Callback (deleteSnapshot_call ''zones/abc@vm-migrate-estimate''),
          Next (Some (JsError ''zfs snapshot error: Command failed'' (Some ''cannot open'')))]"
  by (simp add: pipeline_unfold command_unfold)

text \<open>The same on every input: a failure after the snapshot was created reaches \<^verbatim>\<open>next\<close> twice.\<close>

lemma compensation_doubles_next:
  "snapshotCreated st \<Longrightarrow> onEstimateOneDatasetPipelineCb (Some e) r st = Inr st' \<Longrightarrow>
   next_calls (observed st') = next_calls (observed st) @ [Some e, Some e]"
  by (auto simp: onEstimateOneDatasetPipelineCb_def next_calls_append
        split: sum.splits prod.splits)

lemma succeeding_dataset_adds_size:
  "estimateOneDataset d e n = Inr st \<Longrightarrow> next_calls (observed st) = [None] \<Longrightarrow>
     \<exists>ds. match_size (lastLine (stdout (send e))) = Some ds
        \<and> estimatedSize st = js_add n (Number_of ds)"
  by (auto simp: pipeline_unfold
        split: sum.splits option.splits if_splits prod.splits)

text \<open>What a pipeline does is the same whatever the accumulator holds.\<close>

lemma observed_any_size:
  "map_sum id observed (estimateOneDataset d e n)
     = map_sum id observed (estimateOneDataset d e m)"
  by (auto simp: pipeline_unfold
        split: sum.splits option.splits if_splits prod.splits)

lemma pipeline_succeeds_step:
  assumes "pipeline_succeeds d e"
  shows "\<exists>st ds. estimateOneDataset d e n = Inr st \<and> next_calls (observed st) = [None]
           \<and> match_size (lastLine (stdout (send e))) = Some ds
           \<and> estimatedSize st = js_add n (Number_of ds)"
proof -
  from assms obtain st0
    where start: "estimateOneDataset d e (Finite 0) = Inr st0"
      "next_calls (observed st0) = [None]"
    by (auto simp: pipeline_succeeds_def split: sum.splits)
  from observed_any_size [of d e n "Finite 0"] start(1) obtain st
    where run: "estimateOneDataset d e n = Inr st" "observed st = observed st0"
    by (cases "estimateOneDataset d e n") auto
  with start(2) have once: "next_calls (observed st) = [None]"
    by simp
  from succeeding_dataset_adds_size [OF run(1) once] show ?thesis
    using run(1) once by auto
qed

lemma estimateAll_sum:
  "list_all (\<lambda>(d, e). pipeline_succeeds d e) des \<Longrightarrow>
   map (\<lambda>(d, e). parsed_size e) des = map Some sizes \<Longrightarrow>
   n + sum_list sizes \<le> 2 ^ 53 \<Longrightarrow>
   \<exists>traces. estimateAll des (Finite n) = Inr (traces, Finite (n + sum_list sizes))
      \<and> list_all (\<lambda>t. next_calls t = [None]) traces"
proof (induction des arbitrary: n sizes)
  case Nil
  then show ?case by simp
next
  case (Cons de des)
  obtain d e where de: "de = (d, e)" by (cases de)
  from Cons.prems(2) obtain k ks
    where sizes: "sizes = k # ks" "parsed_size e = Some k"
      "map (\<lambda>(d, e). parsed_size e) des = map Some ks"
    by (cases sizes) (auto simp: de)
  from Cons.prems(3) have small: "n + k \<le> 2 ^ 53" "k \<le> 2 ^ 53"
      "n + k + sum_list ks \<le> 2 ^ 53"
    by (simp_all add: sizes(1))
  from Cons.prems(1)
  have ok: "pipeline_succeeds d e" "list_all (\<lambda>(d, e). pipeline_succeeds d e) des"
    by (auto simp: de)
  from pipeline_succeeds_step [OF ok(1), of "Finite n"] sizes(2) obtain st ds
    where st: "estimateOneDataset d e (Finite n) = Inr st" "next_calls (observed st) = [None]"
      "decimal_value ds = k" "estimatedSize st = js_add (Finite n) (Number_of ds)"
    by (auto simp: parsed_size_def)
  have added: "estimatedSize st = Finite (n + k)"
    using st(3,4) small by (simp add: Number_of_def to_double_exact)
  from Cons.IH [OF ok(2) sizes(3) small(3)] obtain traces
    where tr: "estimateAll des (Finite (n + k)) = Inr (traces, Finite (n + k + sum_list ks))"
      "list_all (\<lambda>t. next_calls t = [None]) traces"
    by auto
  show ?case
    using st(1,2) added tr by (simp add: de sizes(1) add.assoc)
qed

text \<open>
  Claim C6, as the code has it: when the pipeline of every dataset succeeds and the sizes
  read from the dry-run outputs add up to at most \<open>2 ^ 53\<close>, \<^verbatim>\<open>estimate\<close> finishes the
  task with \<^verbatim>\<open>{size: S}\<close>, \<open>S\<close> being the sum of those sizes; for two datasets with
  sizes \<open>X\<close> and \<open>Y\<close> that is \<open>X + Y\<close>.
\<close>

theorem estimate_size_is_sum:
  assumes "\<forall>i < length (estimate_datasets v).
             pipeline_succeeds (estimate_datasets v ! i) (envs i)"
    and "map (\<lambda>i. parsed_size (envs i)) [0..<length (estimate_datasets v)] = map Some sizes"
    and "sum_list sizes \<le> 2 ^ 53"
  shows "estimate v envs = Completed [Finish (SizeResult (Finite (sum_list sizes)))]"
proof -
  let ?ds = "estimate_datasets v"
  let ?des = "zip ?ds (map envs [0..<length ?ds])"
  have all_ok: "list_all (\<lambda>(d, e). pipeline_succeeds d e) ?des"
    using assms(1) by (auto simp: list_all_length)
  have "map (\<lambda>(d, e). parsed_size e) ?des = map (\<lambda>i. parsed_size (envs i)) [0..<length ?ds]"
    by (rule nth_equalityI) auto
  with assms(2) have read: "map (\<lambda>(d, e). parsed_size e) ?des = map Some sizes"
    by simp
  from assms(3) have small: "0 + sum_list sizes \<le> 2 ^ 53"
    by simp
  from estimateAll_sum [OF all_ok read small] obtain traces
    where tr: "estimateAll ?des (Finite 0) = Inr (traces, Finite (sum_list sizes))"
      "list_all (\<lambda>t. next_calls t = [None]) traces"
    by auto
  have single: "\<not> list_ex (\<lambda>t. length (next_calls t) \<noteq> 1) traces"
    using tr(2) by (auto simp: list_all_iff list_ex_iff)
  have no_error: "List.map_filter id (concat (map next_calls traces)) = []"
    using tr(2) by (induction traces) (auto simp: List.map_filter_simps)
  show ?thesis
    using tr(1) single no_error by (simp add: estimate_def Let_def)
qed

text \<open>A kvm machine with two disks, the three dry runs stating 10, 20 and 30 bytes: 60.\<close>

theorem estimate_size_is_sum_witness:
  "estimate
     \<lparr>brand = ''kvm'', zfs_filesystem = ''zones/abc'',
      disks = Some [''zones/abc-disk0'', ''zones/abc-disk1'']\<rparr>
     (\<lambda>i. healthy (if i = 0 then ''size 10'' else if i = 1 then ''size 20'' else ''size 30''))
   = Completed [Finish (SizeResult (Finite (10 + 20 + 30)))]"
proof -
  let ?v = "\<lparr>brand = ''kvm'', zfs_filesystem = ''zones/abc'',
             disks = Some [''zones/abc-disk0'', ''zones/abc-disk1'']\<rparr>"
  let ?envs = "\<lambda>i::nat. healthy
                 (if i = 0 then ''size 10'' else if i = 1 then ''size 20'' else ''size 30'')"
  have ok: "\<forall>i < length (estimate_datasets ?v).
              pipeline_succeeds (estimate_datasets ?v ! i) (?envs i)"
    by (simp add: estimate_datasets_def All_less_Suc pipeline_succeeds_def pipeline_unfold
          command_unfold parse_unfold)
  have read: "map (\<lambda>i. parsed_size (?envs i)) [0..<length (estimate_datasets ?v)]
                = map Some [10, 20, 30]"
    by (simp add: estimate_datasets_def upt_rec parsed_size_def healthy_def succeeded_def
          parse_unfold)
  have exact: "sum_list [10, 20, 30] \<le> (2::nat) ^ 53"
    by simp
  from estimate_size_is_sum [OF ok read exact] show ?thesis by simp
qed

text \<open>
  Claim C6 as stated fails above \<open>2 ^ 53\<close>: with both pipelines succeeding and the dry
  runs stating \<open>9007199254740992\<close> and \<open>1\<close>, the task finishes with the size
  \<open>9007199254740992\<close>, since the sum is rounded to a double.
\<close>

theorem estimate_rounds_large_sum:
  "pipeline_succeeds (estimate_datasets large_vm ! 0) (large_envs 0)
   \<and> pipeline_succeeds (estimate_datasets large_vm ! 1) (large_envs 1)
   \<and> parsed_size (large_envs 0) = Some 9007199254740992
   \<and> parsed_size (large_envs 1) = Some 1
   \<and> estimate large_vm large_envs
       = Completed [Finish (SizeResult (Finite 9007199254740992))]
   \<and> estimate large_vm large_envs
       \<noteq> Completed [Finish (SizeResult (Finite (9007199254740992 + 1)))]"
  by (simp add: estimate_def estimate_datasets_def large_vm_def large_envs_def upt_rec
        pipeline_succeeds_def parsed_size_def pipeline_unfold command_unfold parse_unfold
        Number_of_def to_double_def)


section \<open>The synchronous behaviours\<close>

text \<open>
  Claim C10: when the external command of \<^verbatim>\<open>setupFilesystem\<close>,
  \<^verbatim>\<open>setDoNotInventory\<close> or \<^verbatim>\<open>setAutoboot\<close> fails, the task is failed with the message
  \<^verbatim>\<open>"undefined"\<close>, whatever the failure was.
\<close>

theorem sync_failure_reports_undefined:
  "is_uuid vm_uuid \<Longrightarrow>
     sync_task_calls (setupFilesystem vm_uuid (Inl ex))
       = Some [Fatal (Msg ''undefined'') None]
   \<and> sync_task_calls (setDoNotInventory vm_uuid val (Inl ex))
       = Some [Fatal (Msg ''undefined'') None]
   \<and> sync_task_calls (setAutoboot vm_uuid val (Inl ex))
       = Some [Fatal (Msg ''undefined'') None]"
  by (simp add: sync_task_calls_def setupFilesystem_def setDoNotInventory_def
        setAutoboot_def sync_behaviour_def)

theorem sync_failure_reports_undefined_witness:
  "is_uuid ''930896af-bf8c-48d4-885c-6573a94b1853''
   \<and> sync_task_calls (setupFilesystem ''930896af-bf8c-48d4-885c-6573a94b1853''
        (Inl ''Command failed: cannot mount'')) = Some [Fatal (Msg ''undefined'') None]
   \<and> sync_task_calls (setAutoboot ''930896af-bf8c-48d4-885c-6573a94b1853'' ''true''
        (Inl ''Command failed: vmadm'')) = Some [Fatal (Msg ''undefined'') None]"
  using sync_failure_reports_undefined
      [of "''930896af-bf8c-48d4-885c-6573a94b1853''" "''Command failed: cannot mount''"]
    sync_failure_reports_undefined
      [of "''930896af-bf8c-48d4-885c-6573a94b1853''" "''Command failed: vmadm''" "''true''"]
  by (simp add: is_uuid_def is_hex_def upt_rec)

end
